theory Spec2Isabelle
  imports Main
begin


section \<open>Go standard-library functions used by the program\<close>

subsection \<open>Package \<open>strings\<close>\<close>

text \<open>
  Go strings are byte sequences; they are modelled as \<^typ>\<open>string\<close> (a list of 8-bit
  characters). The functions below are the parts of package \<open>strings\<close>,
  \<open>unicode\<close> and \<open>bufio\<close> that \<open>runEnvExec\<close> and the validator call.
\<close>

definition HasPrefix :: "string \<Rightarrow> string \<Rightarrow> bool" where
  "HasPrefix s p = (take (length p) s = p)"


definition Contains :: "string \<Rightarrow> char \<Rightarrow> bool" where
  "Contains s c = (c \<in> set s)"

definition ContainsAny :: "string \<Rightarrow> string \<Rightarrow> bool" where
  "ContainsAny s chars = list_ex (\<lambda>c. c \<in> set chars) s"

text \<open>\<open>strings.SplitN(s, sep, 2)\<close> for a one-byte separator: at most two pieces, split at
  the first occurrence of the separator; a single piece when it does not occur.\<close>

definition SplitN2 :: "string \<Rightarrow> char \<Rightarrow> string list" where
  "SplitN2 s sep =
     (if sep \<in> set s
      then [takeWhile (\<lambda>c. c \<noteq> sep) s, tl (dropWhile (\<lambda>c. c \<noteq> sep) s)]
      else [s])"

text \<open>\<open>strings.ToLower\<close> on the ASCII letters. The program compares the result with
  \<open>.age\<close>, \<open>.json\<close>, \<open>.yaml\<close>, \<open>.yml\<close> and \<open>.toml\<close> only, and no rune outside ASCII has
  one of their letters as its lower case, so the comparisons come out the same.\<close>

definition ToLower :: "string \<Rightarrow> string" where
  "ToLower s =
     map (\<lambda>c. if 65 \<le> (of_char c :: nat) \<and> (of_char c :: nat) \<le> 90
               then char_of ((of_char c :: nat) + 32) else c) s"

subsection \<open>\<open>strings.TrimSpace\<close>\<close>

text \<open>The bytes for which \<open>strings.TrimSpace\<close>'s ASCII table \<open>asciiSpace\<close> is set:
  tab, line feed, vertical tab, form feed, carriage return, space.\<close>

definition asciiSpace :: "char \<Rightarrow> bool" where
  "asciiSpace c = (c = CHR 0x09 \<or> c = CHR 0x0A \<or> c = CHR 0x0B \<or> c = CHR 0x0C \<or>
                   c = CHR 0x0D \<or> c = CHR 0x20)"

text \<open>
  \<open>unicode.IsSpace\<close> on the rune that starts a byte string, as the number of bytes of
  that rune (0 when the first rune is not white space). Beyond ASCII the white-space
  runes are U+0085, U+00A0, U+1680, U+2000..U+200A, U+2028, U+2029, U+202F, U+205F and
  U+3000, in their (only valid) UTF-8 encodings.
\<close>

fun spaceRuneLen :: "string \<Rightarrow> nat" where
  "spaceRuneLen [] = 0"
| "spaceRuneLen [a] = (if asciiSpace a then 1 else 0)"
| "spaceRuneLen [a, b] =
     (if asciiSpace a then 1
      else if a = CHR 0xC2 \<and> (b = CHR 0x85 \<or> b = CHR 0xA0) then 2 else 0)"
| "spaceRuneLen (a # b # c # rest) =
     (if asciiSpace a then 1
      else if a = CHR 0xC2 \<and> (b = CHR 0x85 \<or> b = CHR 0xA0) then 2
      else if a = CHR 0xE1 \<and> b = CHR 0x9A \<and> c = CHR 0x80 then 3
      else if a = CHR 0xE2 \<and> b = CHR 0x80 \<and>
              (of_char c \<in> {0x80 .. (0x8A::nat)} \<or> c = CHR 0xA8 \<or> c = CHR 0xA9 \<or> c = CHR 0xAF)
           then 3
      else if a = CHR 0xE2 \<and> b = CHR 0x81 \<and> c = CHR 0x9F then 3
      else if a = CHR 0xE3 \<and> b = CHR 0x80 \<and> c = CHR 0x80 then 3
      else 0)"

text \<open>The same test on the rune that ends a byte string (\<open>utf8.DecodeLastRune\<close>), given
  the reversed string: the last byte comes first.\<close>

fun lastSpaceRuneLen :: "string \<Rightarrow> nat" where
  "lastSpaceRuneLen [] = 0"
| "lastSpaceRuneLen [c] = (if asciiSpace c then 1 else 0)"
| "lastSpaceRuneLen [c, b] =
     (if asciiSpace c then 1
      else if b = CHR 0xC2 \<and> (c = CHR 0x85 \<or> c = CHR 0xA0) then 2 else 0)"
| "lastSpaceRuneLen (c # b # a # rest) =
     (if asciiSpace c then 1
      else if b = CHR 0xC2 \<and> (c = CHR 0x85 \<or> c = CHR 0xA0) then 2
      else if a = CHR 0xE1 \<and> b = CHR 0x9A \<and> c = CHR 0x80 then 3
      else if a = CHR 0xE2 \<and> b = CHR 0x80 \<and>
              (of_char c \<in> {0x80 .. (0x8A::nat)} \<or> c = CHR 0xA8 \<or> c = CHR 0xA9 \<or> c = CHR 0xAF)
           then 3
      else if a = CHR 0xE2 \<and> b = CHR 0x81 \<and> c = CHR 0x9F then 3
      else if a = CHR 0xE3 \<and> b = CHR 0x80 \<and> c = CHR 0x80 then 3
      else 0)"

function TrimLeft :: "string \<Rightarrow> string" where
  "TrimLeft [] = []"
| "TrimLeft (c # cs) =
     (if spaceRuneLen (c # cs) = 0 then c # cs
      else TrimLeft (drop (spaceRuneLen (c # cs)) (c # cs)))"
  by pat_completeness auto
termination
  by (relation "measure length") auto

function TrimRightRev :: "string \<Rightarrow> string" where
  "TrimRightRev [] = []"
| "TrimRightRev (c # cs) =
     (if lastSpaceRuneLen (c # cs) = 0 then c # cs
      else TrimRightRev (drop (lastSpaceRuneLen (c # cs)) (c # cs)))"
  by pat_completeness auto
termination
  by (relation "measure length") auto

definition TrimRight :: "string \<Rightarrow> string" where
  "TrimRight s = rev (TrimRightRev (rev s))"

text \<open>\<open>strings.TrimSpace\<close>: all leading and trailing white space removed.\<close>

definition TrimSpace :: "string \<Rightarrow> string" where
  "TrimSpace s = TrimRight (TrimLeft s)"

subsection \<open>\<open>filepath.Ext\<close>\<close>

text \<open>\<open>filepath.Ext\<close>: the suffix from the last dot of the final element of the path, empty
  when that element has no dot. \<open>extScan\<close> walks the path from its end.\<close>

fun extScan :: "string \<Rightarrow> string \<Rightarrow> string" where
  "extScan [] suffix = []"
| "extScan (c # before) suffix =
     (if c = CHR ''/'' then []
      else if c = CHR ''.'' then c # suffix
      else extScan before (c # suffix))"

definition Ext :: "string \<Rightarrow> string" where
  "Ext path = extScan (rev path) []"

subsection \<open>\<open>bufio.Scanner\<close> with the default \<open>ScanLines\<close> split function\<close>

definition maxTokenSize :: nat where
  "maxTokenSize = 65536"

definition dropCR :: "string \<Rightarrow> string" where
  "dropCR d = (if d \<noteq> [] \<and> last d = CHR 0x0D then butlast d else d)"

text \<open>
  The tokens the scanner delivers for an input, and whether it stopped with
  \<open>bufio.ErrTooLong\<close>. A line is the bytes up to the next line feed (or to the end of the
  input); one trailing carriage return is dropped. The scanner's buffer holds at most
  \<open>maxTokenSize\<close> bytes, so a line of that many bytes or more before its line feed
  ends the scan with the error, after the earlier tokens were delivered.
\<close>

function scanLines :: "string \<Rightarrow> string list \<times> bool" where
  "scanLines [] = ([], False)"
| "scanLines (c # cs) =
     (if maxTokenSize \<le> length (takeWhile (\<lambda>x. x \<noteq> CHR 0x0A) (c # cs)) then ([], True)
      else (case scanLines (drop (Suc (length (takeWhile (\<lambda>x. x \<noteq> CHR 0x0A) (c # cs)))) (c # cs))
            of (ls, e) \<Rightarrow> (dropCR (takeWhile (\<lambda>x. x \<noteq> CHR 0x0A) (c # cs)) # ls, e)))"
  by pat_completeness auto
termination
  by (relation "measure length") auto

section \<open>Errors\<close>

text \<open>Every error value the modelled code creates or passes on, one constructor per
  error site (the message texts are not modelled).\<close>

datatype error =
    ErrTooLong                \<comment> \<open>\<open>bufio.ErrTooLong\<close> from \<open>sc.Err()\<close>\<close>
  | ErrRunUsage               \<comment> \<open>"run usage: agepad run -- <file.age> -- <command> [args...]"\<close>
  | ErrRunOneFile             \<comment> \<open>"run: expected exactly one AGE file after the first --"\<close>
  | ErrLoadIdentities
  | ErrLoadRecipients
  | ErrCommandNotFound string \<comment> \<open>"run: command not found: %s"\<close>
  | ErrExec                   \<comment> \<open>\<open>syscall.Exec\<close> returned\<close>
  | ErrOpenCiphertext         \<comment> \<open>"open ciphertext: %w"\<close>
  | ErrDecrypt                \<comment> \<open>"decrypt: %w"\<close>
  | ErrReadPlaintext          \<comment> \<open>"read plaintext: %w"\<close>
  | ErrEncrypt                \<comment> \<open>an error of \<open>age.Encrypt\<close>, of the stream's \<open>Write\<close> or of a \<open>Close\<close>\<close>
  | ErrCreateTemp             \<comment> \<open>"create temp: %w"\<close>
  | ErrWrite                  \<comment> \<open>a write to the temp file failed\<close>
  | ErrSync                   \<comment> \<open>"sync: %w"\<close>
  | ErrCloseTemp              \<comment> \<open>"close temp: %w"\<close>
  | ErrRename                 \<comment> \<open>the error of \<open>os.Rename\<close>\<close>
  | ErrWalk                   \<comment> \<open>the error of \<open>filepath.WalkDir\<close>\<close>
  | ErrNoAgeFiles             \<comment> \<open>"rotate: no .age files found under %s"\<close>
  | ErrRotateSomeFailed       \<comment> \<open>"rotate: some files failed (see stderr)"\<close>
  | ErrJSON | ErrYAML | ErrTOML
  | ErrDotEnvParse nat        \<comment> \<open>".env parse error on line %d: expected KEY=VALUE"\<close>
  | ErrDotEnvKey nat          \<comment> \<open>".env invalid key on line %d"\<close>
  | ErrPreflightEncrypt       \<comment> \<open>"preflight encrypt: %w"\<close>
  | ErrPreflightDecrypt       \<comment> \<open>"preflight decrypt failed with current identities; ..."\<close>
  | PanicIndexOutOfRange      \<comment> \<open>the run-time panic of an index out of range\<close>

section \<open>External collaborators\<close>

text \<open>
  The program calls the age library (\<open>filippo.io/age\<close> and its \<open>armor\<close> package) and
  \<open>path/filepath\<close>. They are parameters of the model:
  \<^item> \<open>age_Encrypt recipients nonce plaintext\<close>: the bytes that \<open>age.Encrypt\<close>, \<open>Write\<close> and
    \<open>Close\<close> of the encryption stream send to the underlying writer, \<open>None\<close> when one
    of the three returns an error; the nonce stands for the randomness of the
    encryption;
  \<^item> \<open>age_Decrypt identities src\<close>: \<open>None\<close> when \<open>age.Decrypt\<close> returns an error, else
    \<open>Some r\<close> where \<open>r\<close> is what \<open>io.ReadAll\<close> of the returned reader gives (\<open>None\<close>: a
    read error);
  \<^item> \<open>armor_Writer payload\<close>: the text an \<open>armor.NewWriter\<close> has written once it is closed;
  \<^item> \<open>armor_Reader src\<close>: the bytes read through \<open>armor.NewReader\<close>, \<open>None\<close> when reading
    fails (then the \<open>age.Decrypt\<close> that reads from it fails);
  \<^item> \<open>armor_Read1 src\<close>: whether a first one-byte \<open>Read\<close> from \<open>armor.NewReader(src)\<close>
    returns no error;
  \<^item> \<open>filepath_Dir\<close> and \<open>filepath_Base\<close>.
\<close>

record ('id, 'rc) lib =
  age_Encrypt :: "'rc list \<Rightarrow> nat \<Rightarrow> string \<Rightarrow> string option"
  age_Decrypt :: "'id list \<Rightarrow> string \<Rightarrow> string option option"
  armor_Writer :: "string \<Rightarrow> string"
  armor_Reader :: "string \<Rightarrow> string option"
  armor_Read1 :: "string \<Rightarrow> bool"
  filepath_Dir :: "string \<Rightarrow> string"
  filepath_Base :: "string \<Rightarrow> string"

section \<open>The disk\<close>

text \<open>
  The files of the disk by path, and the trace of the operations that changed it, oldest
  first. What the operating system decides during one call is an input of the model:
  which step fails (if any), the random part of the temp file's name, the randomness of
  the two encryptions, the clock.
\<close>

datatype fsop =
    OpCreate string
  | OpWrite string string
  | OpRename string string
  | OpRemove string

record disk =
  files :: "string \<rightharpoonup> string"
  ops :: "fsop list"

datatype fault = NoFault | FailOpen | FailCreateTemp | FailWrite | FailSync | FailClose | FailRename

record io =
  fault :: fault
  tmpRandom :: string
  nonce :: nat
  preNonce :: nat
  now :: nat

definition joinPath :: "string \<Rightarrow> string \<Rightarrow> string" where
  "joinPath dir name =
     (if dir \<noteq> [] \<and> last dir = CHR ''/'' then dir @ name else dir @ ''/'' @ name)"

definition tmpPrefix :: string where
  "tmpPrefix = ''.agepad-tmp-''"

text \<open>\<open>os.CreateTemp(dir, ".agepad-tmp-*")\<close>: a new, empty file whose name is the prefix
  and a random string, in \<open>dir\<close>; it never opens a file that exists (a name that is taken
  is modelled as the error it returns when it gives up).\<close>

definition CreateTemp :: "string \<Rightarrow> string \<Rightarrow> bool \<Rightarrow> disk \<Rightarrow> string option \<times> disk" where
  "CreateTemp dir rnd fails d =
     (let name = joinPath dir (tmpPrefix @ rnd) in
      if fails then (None, d)
      else if files d name = None
      then (Some name, d\<lparr>files := (files d)(name \<mapsto> []), ops := ops d @ [OpCreate name]\<rparr>)
      else (None, d))"

text \<open>\<open>os.Remove\<close>, its error dropped as the deferred call drops it: a path that does not
  exist is left alone.\<close>

definition Remove :: "string \<Rightarrow> disk \<Rightarrow> disk" where
  "Remove p d =
     (if files d p = None then d
      else d\<lparr>files := (files d)(p := None), ops := ops d @ [OpRemove p]\<rparr>)"

definition Rename :: "string \<Rightarrow> string \<Rightarrow> disk \<Rightarrow> disk" where
  "Rename old new d =
     d\<lparr>files := (files d)(old := None, new := files d old), ops := ops d @ [OpRename old new]\<rparr>"

section \<open>The age helpers (package \<open>age\<close> of the repository)\<close>

text \<open>\<open>EncryptToMemory\<close>: the encryption stream is closed before the armor writer.\<close>

definition EncryptToMemory ::
  "('id, 'rc) lib \<Rightarrow> nat \<Rightarrow> string \<Rightarrow> 'rc list \<Rightarrow> bool \<Rightarrow> error + string" where
  "EncryptToMemory L n plaintext rcps useArmor =
     (if useArmor
      then (case age_Encrypt L rcps n plaintext of
              None \<Rightarrow> Inl ErrEncrypt
            | Some c \<Rightarrow> Inr (armor_Writer L c))
      else (case age_Encrypt L rcps n plaintext of
              None \<Rightarrow> Inl ErrEncrypt
            | Some c \<Rightarrow> Inr c))"

text \<open>\<open>DecryptToMemory\<close>: open the file, try a one-byte read through an armor reader, rewind,
  and decrypt through a new armor reader when that read succeeded, from the file itself
  otherwise.\<close>

definition DecryptToMemory ::
  "('id, 'rc) lib \<Rightarrow> io \<Rightarrow> string \<Rightarrow> 'id list \<Rightarrow> disk \<Rightarrow> error + string" where
  "DecryptToMemory L i cipherPath ids d =
     (case (if fault i = FailOpen then None else files d cipherPath) of
        None \<Rightarrow> Inl ErrOpenCiphertext
      | Some f \<Rightarrow>
          (let reader = (if armor_Read1 L f then armor_Reader L f else Some f) in
           case (case reader of None \<Rightarrow> None | Some src \<Rightarrow> age_Decrypt L ids src) of
             None \<Rightarrow> Inl ErrDecrypt
           | Some r \<Rightarrow>
               (case r of
                  None \<Rightarrow> Inl ErrReadPlaintext
                | Some plain \<Rightarrow> Inr plain)))"

text \<open>
  \<open>AtomicEncryptWrite\<close>. \<open>writeTemp\<close> is the body after the temp file exists (encrypt into
  it, sync, close, rename); the deferred \<open>os.Remove(tmpPath)\<close> runs after it on every
  path.
\<close>

definition writeTemp ::
  "('id, 'rc) lib \<Rightarrow> io \<Rightarrow> string \<Rightarrow> string \<Rightarrow> string \<Rightarrow> 'rc list \<Rightarrow> bool \<Rightarrow> disk
     \<Rightarrow> error option \<times> disk" where
  "writeTemp L i tmpPath dstPath b rcps useArmor d =
     (case (if useArmor
            then (case age_Encrypt L rcps (nonce i) b of
                    None \<Rightarrow> None
                  | Some c \<Rightarrow> Some (armor_Writer L c))
            else age_Encrypt L rcps (nonce i) b) of
        None \<Rightarrow> (Some ErrEncrypt, d)
      | Some c \<Rightarrow>
          if fault i = FailWrite then (Some ErrWrite, d)
          else (let d' = d\<lparr>files := (files d)(tmpPath \<mapsto> c), ops := ops d @ [OpWrite tmpPath c]\<rparr>
                in if fault i = FailSync then (Some ErrSync, d')
                   else if fault i = FailClose then (Some ErrCloseTemp, d')
                   else if fault i = FailRename then (Some ErrRename, d')
                   else (None, Rename tmpPath dstPath d')))"

definition AtomicEncryptWrite ::
  "('id, 'rc) lib \<Rightarrow> io \<Rightarrow> string \<Rightarrow> string \<Rightarrow> 'rc list \<Rightarrow> bool \<Rightarrow> disk \<Rightarrow> error option \<times> disk" where
  "AtomicEncryptWrite L i dstPath b rcps useArmor d =
     (let dir = filepath_Dir L dstPath in
      case CreateTemp dir (tmpRandom i) (fault i = FailCreateTemp) d of
        (None, d0) \<Rightarrow> (Some ErrCreateTemp, d0)
      | (Some tmpPath, d1) \<Rightarrow>
          (case writeTemp L i tmpPath dstPath b rcps useArmor d1 of
             (r, d2) \<Rightarrow> (r, Remove tmpPath d2)))"



section \<open>Format validation (package \<open>validator\<close>)\<close>

text \<open>\<open>looksLikeDotEnv\<close>: the loop counts the lines that are neither blank nor comments,
  and those among them with a \<open>=\<close> that is not their first byte.\<close>

fun looksLoop :: "string list \<Rightarrow> nat \<times> nat \<Rightarrow> nat \<times> nat" where
  "looksLoop [] acc = acc"
| "looksLoop (text # rest) (lines, matches) =
     (let line = TrimSpace text in
      if line = [] then looksLoop rest (lines, matches)
      else if HasPrefix line ''#'' then looksLoop rest (lines, matches)
      else looksLoop rest
             (lines + 1,
              if Contains line (CHR ''='') \<and> \<not> HasPrefix line ''='' then matches + 1 else matches))"

definition looksLikeDotEnv :: "string \<Rightarrow> bool" where
  "looksLikeDotEnv s =
     (case looksLoop (fst (scanLines s)) (0, 0) of (lines, matches) \<Rightarrow> 0 < lines \<and> 0 < matches)"

text \<open>\<open>validateDotEnv\<close>: the loop with the number of the last line read.\<close>

fun validateLoop :: "string list \<Rightarrow> nat \<Rightarrow> error option" where
  "validateLoop [] lineNo = None"
| "validateLoop (line # rest) lineNo =
     (let t = TrimSpace line in
      if t = [] then validateLoop rest (lineNo + 1)
      else if HasPrefix t ''#'' then validateLoop rest (lineNo + 1)
      else if Contains t (CHR ''='') then
        (if HasPrefix t ''='' then Some (ErrDotEnvParse (lineNo + 1))
         else (let kv = SplitN2 t (CHR ''=''); key = TrimSpace (kv ! 0) in
               if key = [] then Some (ErrDotEnvKey (lineNo + 1))
               else if ContainsAny key [CHR '' '', CHR 0x09, CHR 0x22, CHR 0x27]
               then Some (ErrDotEnvKey (lineNo + 1))
               else validateLoop rest (lineNo + 1)))
      else Some (ErrDotEnvParse (lineNo + 1)))"

definition validateDotEnv :: "string \<Rightarrow> error option" where
  "validateDotEnv s = validateLoop (fst (scanLines s)) 0"

section \<open>The editor (package \<open>tui\<close>)\<close>

datatype msg = snapshotTick | KeyMsg string | OtherMsg nat

datatype cmd = CmdNil | CmdQuit | CmdTick | CmdTextarea nat

text \<open>
  The editor's collaborators: the text area of the Bubbles library (its state is the
  type \<open>'ta\<close>; \<open>ta_New plaintext viewOnly\<close> is the text area \<open>NewModel\<close> sets up), the
  parsers of the three structured formats (whether the content parses), and
  \<open>difflib\<close> (\<open>a\<close>, \<open>b\<close>, the two file names).
\<close>

record 'ta ui =
  ta_New :: "string \<Rightarrow> bool \<Rightarrow> 'ta"
  ta_Value :: "'ta \<Rightarrow> string"
  ta_Update :: "msg \<Rightarrow> 'ta \<Rightarrow> 'ta \<times> cmd"
  json_parses :: "string \<Rightarrow> bool"
  yaml_parses :: "string \<Rightarrow> bool"
  toml_parses :: "string \<Rightarrow> bool"
  difflib_UnifiedDiff :: "string \<Rightarrow> string \<Rightarrow> string \<Rightarrow> string \<Rightarrow> string"

definition ValidateByExt :: "'ta ui \<Rightarrow> string \<Rightarrow> string \<Rightarrow> error option" where
  "ValidateByExt U filename content =
     (let ext = ToLower (Ext filename) in
      if ext = ''.json'' then (if json_parses U content then None else Some ErrJSON)
      else if ext = ''.yaml'' \<or> ext = ''.yml''
      then (if yaml_parses U content then None else Some ErrYAML)
      else if ext = ''.toml'' then (if toml_parses U content then None else Some ErrTOML)
      else if looksLikeDotEnv content then validateDotEnv content
      else None)"

definition unifiedDiff :: "'ta ui \<Rightarrow> string \<Rightarrow> string \<Rightarrow> string \<Rightarrow> string" where
  "unifiedDiff U a b filename =
     difflib_UnifiedDiff U a b (filename @ '' (original)'') (filename @ '' (edited)'')"

text \<open>\<open>truncate\<close> (the name is taken by the record package).\<close>

definition truncate_str :: "string \<Rightarrow> nat \<Rightarrow> string" where
  "truncate_str s n =
     (if length s \<le> n then s
      else take n s @ [CHR 0x0A, CHR 0xE2, CHR 0x80, CHR 0xA6] @ ''(truncated)'' @
           [CHR 0xE2, CHR 0x80, CHR 0xA6])"

record Config =
  FilePath :: string
  RecipientsFile :: string
  IdentitiesPath :: string
  Armor :: bool
  ViewOnly :: bool

text \<open>The status line, one constructor for each text the editor shows.\<close>

datatype status =
    StOpened string            \<comment> \<open>"Opened %s (RAM). Ctrl+D: diff  Ctrl+S: save  Ctrl+Q: quit"\<close>
  | StUnsavedChanges           \<comment> \<open>"Unsaved changes; press Ctrl+Q again to quit without saving"\<close>
  | StNoChanges                \<comment> \<open>"No changes to show (buffers identical)."\<close>
  | StDiffPreview string       \<comment> \<open>"Diff preview (first 2000 chars):" and the diff\<close>
  | StViewOnly                 \<comment> \<open>"View-only mode: saving disabled."\<close>
  | StValidationFailed         \<comment> \<open>"Validation failed; not saved."\<close>
  | StSaveAborted              \<comment> \<open>"Save aborted."\<close>
  | StSaveAbortedUpdate        \<comment> \<open>"Save aborted. Update recipients or identities."\<close>
  | StAboutToSave string       \<comment> \<open>"About to save. Diff ..." "Press Ctrl+S again to confirm."\<close>
  | StSaveFailed               \<comment> \<open>"Save failed"\<close>
  | StSaved string bool nat    \<comment> \<open>"Saved %s (armor=%v) at %s"\<close>

record ('id, 'rc, 'ta) Model =
  cfg :: Config
  ta :: 'ta
  orig :: string
  status :: status
  err :: "error option"
  identities :: "'id list"
  recips :: "'rc list"
  changed :: bool
  savedAt :: "nat option"
  lastSnapshot :: string
  pendingConfirm :: bool

definition NewModel ::
  "'ta ui \<Rightarrow> Config \<Rightarrow> string \<Rightarrow> 'id list \<Rightarrow> 'rc list \<Rightarrow> ('id, 'rc, 'ta) Model" where
  "NewModel U c plaintext ids rcps =
     \<lparr>cfg = c,
      ta = ta_New U plaintext (ViewOnly c),
      orig = plaintext,
      status = StOpened (FilePath c),
      err = None,
      identities = ids,
      recips = rcps,
      changed = False,
      savedAt = None,
      lastSnapshot = plaintext,
      pendingConfirm = False\<rparr>"

text \<open>\<open>Update\<close>, branch by branch. The state is the model and the disk; the result is the
  new state and the returned command.\<close>

type_synonym ('id, 'rc, 'ta) state = "('id, 'rc, 'ta) Model \<times> disk"

text \<open>Keys \<open>ctrl+q\<close> and \<open>esc\<close>.\<close>

definition updateQuit :: "('id, 'rc, 'ta) state \<Rightarrow> ('id, 'rc, 'ta) state \<times> cmd" where
  "updateQuit s =
     (case s of (m, d) \<Rightarrow>
        if changed m \<and> \<not> ViewOnly (cfg m) \<and> \<not> pendingConfirm m
        then ((m\<lparr>status := StUnsavedChanges, pendingConfirm := True\<rparr>, d), CmdNil)
        else ((m, d), CmdQuit))"

text \<open>Key \<open>ctrl+d\<close>.\<close>

definition updateDiff ::
  "('id, 'rc) lib \<Rightarrow> 'ta ui \<Rightarrow> ('id, 'rc, 'ta) state \<Rightarrow> ('id, 'rc, 'ta) state \<times> cmd" where
  "updateDiff L U s =
     (case s of (m, d) \<Rightarrow>
        (let diff = unifiedDiff U (orig m) (ta_Value U (ta m)) (filepath_Base L (FilePath (cfg m)))
         in ((m\<lparr>status := (if TrimSpace diff = [] then StNoChanges
                             else StDiffPreview (truncate_str diff 2000)),
                 pendingConfirm := False\<rparr>, d), CmdNil)))"

text \<open>Key \<open>ctrl+s\<close>: view-only check, validation, the preflight (encrypt to memory, then
  \<open>age.Decrypt\<close> of that ciphertext with the identities; the drained plaintext is not
  looked at), the confirmation gate, the atomic write.\<close>

definition updateSave ::
  "('id, 'rc) lib \<Rightarrow> 'ta ui \<Rightarrow> io \<Rightarrow> ('id, 'rc, 'ta) state \<Rightarrow> ('id, 'rc, 'ta) state \<times> cmd" where
  "updateSave L U i s =
     (case s of (m, d) \<Rightarrow>
        if ViewOnly (cfg m) then ((m\<lparr>status := StViewOnly\<rparr>, d), CmdNil)
        else
          (let buf = ta_Value U (ta m) in
           case ValidateByExt U (FilePath (cfg m)) buf of
             Some e \<Rightarrow>
               ((m\<lparr>err := Some e, status := StValidationFailed, pendingConfirm := False\<rparr>, d),
                CmdNil)
           | None \<Rightarrow>
          (case EncryptToMemory L (preNonce i) buf (recips m) (Armor (cfg m)) of
             Inl e \<Rightarrow>
               ((m\<lparr>err := Some ErrPreflightEncrypt, status := StSaveAborted,
                    pendingConfirm := False\<rparr>, d), CmdNil)
           | Inr cipher \<Rightarrow>
          (case age_Decrypt L (identities m) cipher of
             None \<Rightarrow>
               ((m\<lparr>err := Some ErrPreflightDecrypt, status := StSaveAbortedUpdate,
                    pendingConfirm := False\<rparr>, d), CmdNil)
           | Some r \<Rightarrow>
               if ta_Value U (ta m) \<noteq> orig m \<and> \<not> pendingConfirm m
               then
                 (let diff = unifiedDiff U (orig m) (ta_Value U (ta m))
                               (filepath_Base L (FilePath (cfg m)))
                  in ((m\<lparr>status := StAboutToSave (truncate_str diff 2000),
                          pendingConfirm := True\<rparr>, d), CmdNil))
               else
                 (case AtomicEncryptWrite L i (FilePath (cfg m)) buf (recips m) (Armor (cfg m)) d of
                    (Some e, d') \<Rightarrow>
                      ((m\<lparr>err := Some e, status := StSaveFailed, pendingConfirm := False\<rparr>, d'),
                       CmdNil)
                  | (None, d') \<Rightarrow>
                      ((m\<lparr>err := None, savedAt := Some (now i),
                           status := StSaved (FilePath (cfg m)) (Armor (cfg m)) (now i),
                           orig := buf, changed := False, pendingConfirm := False\<rparr>, d'),
                       CmdNil))))))"

text \<open>Every other message goes to the text area.\<close>

definition updateTextarea ::
  "'ta ui \<Rightarrow> msg \<Rightarrow> ('id, 'rc, 'ta) state \<Rightarrow> ('id, 'rc, 'ta) state \<times> cmd" where
  "updateTextarea U t s =
     (case s of (m, d) \<Rightarrow>
        (let prev = ta_Value U (ta m) in
         case ta_Update U t (ta m) of
           (ta', c) \<Rightarrow>
             (if prev \<noteq> ta_Value U ta'
              then ((m\<lparr>ta := ta', changed := True, pendingConfirm := False\<rparr>, d), c)
              else ((m\<lparr>ta := ta'\<rparr>, d), c))))"

definition Update ::
  "('id, 'rc) lib \<Rightarrow> 'ta ui \<Rightarrow> io \<Rightarrow> msg \<Rightarrow> ('id, 'rc, 'ta) state \<Rightarrow> ('id, 'rc, 'ta) state \<times> cmd" where
  "Update L U i t s =
     (case t of
        snapshotTick \<Rightarrow>
          (case s of (m, d) \<Rightarrow> ((m\<lparr>lastSnapshot := ta_Value U (ta m)\<rparr>, d), CmdTick))
      | KeyMsg k \<Rightarrow>
          if k = ''ctrl+q'' \<or> k = ''esc'' then updateQuit s
          else if k = ''ctrl+d'' then updateDiff L U s
          else if k = ''ctrl+s'' then updateSave L U i s
          else updateTextarea U t s
      | OtherMsg n \<Rightarrow> updateTextarea U t s)"

text \<open>The event loop: the messages in their order, each with what the operating system
  decides while it is handled; the loop ends with the message whose command is
  \<open>tea.Quit\<close>.\<close>

fun run ::
  "('id, 'rc) lib \<Rightarrow> 'ta ui \<Rightarrow> (io \<times> msg) list \<Rightarrow> ('id, 'rc, 'ta) state \<Rightarrow> ('id, 'rc, 'ta) state" where
  "run L U [] s = s"
| "run L U ((i, t) # rest) s =
     (case Update L U i t s of
        (s', c) \<Rightarrow> if c = CmdQuit then s' else run L U rest s')"

section \<open>Recipient rotation (\<open>runRotate\<close>, cmd/agepad/main.go)\<close>

text \<open>What the run prints: one line on standard error for each file that failed, and the
  final line on standard output.\<close>

datatype rot_out =
    DecryptFailed string error      \<comment> \<open>"rotate: decrypt failed for %s: %v"\<close>
  | ReencryptFailed string error    \<comment> \<open>"rotate: re-encrypt failed for %s: %v"\<close>
  | RotateComplete nat nat          \<comment> \<open>"rotate complete: %d success, %d failed"\<close>



text \<open>The body of the loop over the files, on the counters \<open>ok\<close> and \<open>fail\<close>, the output
  and the disk; \<open>ios f\<close> is what the operating system decides while \<open>f\<close> is
  processed.\<close>

definition rotateOne ::
  "('id, 'rc) lib \<Rightarrow> (string \<Rightarrow> io) \<Rightarrow> 'id list \<Rightarrow> 'rc list \<Rightarrow> string
     \<Rightarrow> nat \<times> nat \<times> rot_out list \<times> disk \<Rightarrow> nat \<times> nat \<times> rot_out list \<times> disk" where
  "rotateOne L ios ids newRecips f st =
     (case st of (ok, fail, out, d) \<Rightarrow>
        (case DecryptToMemory L (ios f) f ids d of
           Inl e \<Rightarrow> (ok, fail + 1, out @ [DecryptFailed f e], d)
         | Inr plain \<Rightarrow>
             (case AtomicEncryptWrite L (ios f) f plain newRecips True d of
                (Some e, d') \<Rightarrow> (ok, fail + 1, out @ [ReencryptFailed f e], d')
              | (None, d') \<Rightarrow> (ok + 1, fail, out, d'))))"




section \<open>Environment injection (\<open>runEnvExec\<close>, cmd/agepad/main.go)\<close>

type_synonym envmap = "string \<rightharpoonup> string"

text \<open>The first loop: the inherited environment, from the \<open>KEY=VALUE\<close> strings of
  \<open>os.Environ()\<close>.\<close>

fun environLoop :: "string list \<Rightarrow> envmap \<Rightarrow> envmap" where
  "environLoop [] envMap = envMap"
| "environLoop (kv # kvs) envMap =
     (let parts = SplitN2 kv (CHR ''='') in
      environLoop kvs (if length parts = 2 then envMap(parts ! 0 \<mapsto> parts ! 1) else envMap))"

text \<open>The body of the second loop, for one token \<open>sc.Text()\<close> of the scanner.\<close>

definition mergeLine :: "string \<Rightarrow> envmap \<Rightarrow> envmap" where
  "mergeLine text envMap =
     (let line = TrimSpace text in
      if line = [] then envMap
      else if HasPrefix line ''#'' then envMap
      else if Contains line (CHR ''='') then
        (let parts = SplitN2 line (CHR ''='');
             key = TrimSpace (parts ! 0);
             val = parts ! 1
         in if key = [] then envMap else envMap(key \<mapsto> val))
      else envMap)"

fun scanLoop :: "string list \<Rightarrow> envmap \<Rightarrow> envmap" where
  "scanLoop [] envMap = envMap"
| "scanLoop (text # rest) envMap = scanLoop rest (mergeLine text envMap)"

text \<open>Both loops and the check of \<open>sc.Err()\<close>: the merged map, or the scanner's error.\<close>

definition mergeEnv :: "string list \<Rightarrow> string \<Rightarrow> error + envmap" where
  "mergeEnv environ plain =
     (let envMap = environLoop environ Map.empty in
      case scanLines plain of
        (ls, tooLong) \<Rightarrow>
          (let envMap' = scanLoop ls envMap in
           if tooLong then Inl ErrTooLong else Inr envMap'))"

subsection \<open>The argument syntax \<open>run -- <file.age> -- <command> [args...]\<close>\<close>

text \<open>The loop that looks for the first two \<open>--\<close> markers: the remaining arguments, the
  index of the next one, and \<open>firstDash\<close> so far (-1 when none); it returns
  \<open>(firstDash, secondDash)\<close> and stops at the second marker, as the \<open>break\<close> does.\<close>

fun findDashes :: "string list \<Rightarrow> int \<Rightarrow> int \<Rightarrow> int \<times> int" where
  "findDashes [] i firstDash = (firstDash, - 1)"
| "findDashes (a # rest) i firstDash =
     (if a = ''--''
      then (if firstDash = - 1 then findDashes rest (i + 1) i else (firstDash, i))
      else findDashes rest (i + 1) firstDash)"

text \<open>The checks on the markers; the result is \<open>(runFile, runArgs)\<close>. The same code stands
  in \<open>runEnvExec\<close> of cmd/agepad/main.go and in \<open>parseRunFlags\<close> of the single-file
  program.\<close>

definition parseRunArgs :: "string list \<Rightarrow> error + (string \<times> string list)" where
  "parseRunArgs args =
     (case findDashes args 0 (- 1) of
        (firstDash, secondDash) \<Rightarrow>
          if firstDash = - 1 \<or> secondDash = - 1 \<or> secondDash = int (length args) - 1
          then Inl ErrRunUsage
          else (let files = take (nat secondDash - nat (firstDash + 1)) (drop (nat (firstDash + 1)) args)
                in if length files = 1
                   then Inr (files ! 0, drop (nat (secondDash + 1)) args)
                   else Inl ErrRunOneFile))"

subsection \<open>The \<open>run\<close> subcommand and the exit status\<close>

text \<open>How the process ends: it exits with a status, or \<open>syscall.Exec\<close> replaces it by the
  command (path, argument vector, environment).\<close>

datatype process_end = Exit nat | Exec string "string list" envmap

text \<open>\<open>runEnvExec\<close> after the arguments are parsed (the same in both programs): load the
  identities, decrypt, merge, look the command up, exec. \<open>lookPath\<close> is
  \<open>exec.LookPath\<close>; \<open>execFails\<close> tells whether \<open>syscall.Exec\<close> returns. Reading the
  command name \<open>Command[0]\<close> of an empty command panics (the parser never returns
  one).\<close>

definition envExec ::
  "('id, 'rc) lib \<Rightarrow> io \<Rightarrow> error + 'id list \<Rightarrow> (string \<Rightarrow> string option) \<Rightarrow> bool \<Rightarrow> string list
     \<Rightarrow> string \<Rightarrow> string list \<Rightarrow> disk \<Rightarrow> error + process_end" where
  "envExec L i loadIds lookPath execFails environ runFile runArgs d =
     (case loadIds of
        Inl e \<Rightarrow> Inl e
      | Inr ids \<Rightarrow>
     (case DecryptToMemory L i runFile ids d of
        Inl e \<Rightarrow> Inl e
      | Inr plain \<Rightarrow>
     (case mergeEnv environ plain of
        Inl e \<Rightarrow> Inl e
      | Inr envMap \<Rightarrow>
     (case runArgs of
        [] \<Rightarrow> Inl PanicIndexOutOfRange
      | cmdName # _ \<Rightarrow>
     (case lookPath cmdName of
        None \<Rightarrow> Inl (ErrCommandNotFound cmdName)
      | Some path \<Rightarrow> if execFails then Inl ErrExec else Inr (Exec path runArgs envMap))))))"

text \<open>\<open>runEnvExec\<close> of cmd/agepad/main.go: the syntax errors are returned like every other
  error.\<close>

definition runEnvExec ::
  "('id, 'rc) lib \<Rightarrow> io \<Rightarrow> error + 'id list \<Rightarrow> (string \<Rightarrow> string option) \<Rightarrow> bool \<Rightarrow> string list
     \<Rightarrow> string list \<Rightarrow> disk \<Rightarrow> error + process_end" where
  "runEnvExec L i loadIds lookPath execFails environ args d =
     (case parseRunArgs args of
        Inl e \<Rightarrow> Inl e
      | Inr (runFile, runArgs) \<Rightarrow> envExec L i loadIds lookPath execFails environ runFile runArgs d)"

text \<open>\<open>main\<close> of cmd/agepad/main.go for the \<open>run\<close> subcommand: \<open>cmd.Run\<close> returns what the
  action returns, and every error ends the process with status 1; the deferred crash
  guard turns a panic into status 3.\<close>

definition main_run ::
  "('id, 'rc) lib \<Rightarrow> io \<Rightarrow> error + 'id list \<Rightarrow> (string \<Rightarrow> string option) \<Rightarrow> bool \<Rightarrow> string list
     \<Rightarrow> string list \<Rightarrow> disk \<Rightarrow> process_end" where
  "main_run L i loadIds lookPath execFails environ args d =
     (case runEnvExec L i loadIds lookPath execFails environ args d of
        Inl e \<Rightarrow> if e = PanicIndexOutOfRange then Exit 3 else Exit 1
      | Inr p \<Rightarrow> p)"

text \<open>\<open>main\<close> of the single-file program for \<open>run\<close>: an error of \<open>parseRunFlags\<close> ends the
  process with status 2, an error of \<open>runEnvExec\<close> with status 1. Its crash guard is
  deferred after the subcommands, so a panic here ends the process as the Go run time
  does, with status 2.\<close>

definition single_file_main_run ::
  "('id, 'rc) lib \<Rightarrow> io \<Rightarrow> error + 'id list \<Rightarrow> (string \<Rightarrow> string option) \<Rightarrow> bool \<Rightarrow> string list
     \<Rightarrow> string list \<Rightarrow> disk \<Rightarrow> process_end" where
  "single_file_main_run L i loadIds lookPath execFails environ args d =
     (case parseRunArgs args of
        Inl e \<Rightarrow> Exit 2
      | Inr (runFile, runArgs) \<Rightarrow>
          (case envExec L i loadIds lookPath execFails environ runFile runArgs d of
             Inl e \<Rightarrow> if e = PanicIndexOutOfRange then Exit 2 else Exit 1
           | Inr p \<Rightarrow> p))"

section \<open>Qualifying lines of an env file\<close>

text \<open>
  The entry a line of the decrypted text contributes, in the words of the description of
  the merge: the line, trimmed, is non-blank, does not start with \<open>#\<close> and contains
  \<open>=\<close>; it is split at the first \<open>=\<close>; the trimmed left side is the key, which must
  not be empty; the right side is the value. \<open>fileEntries\<close> lists the entries of the
  qualifying lines in the order of the file.
\<close>

definition lineEntry :: "string \<Rightarrow> (string \<times> string) option" where
  "lineEntry text =
     (let line = TrimSpace text;
          left = takeWhile (\<lambda>c. c \<noteq> CHR ''='') line;
          right = tl (dropWhile (\<lambda>c. c \<noteq> CHR ''='') line)
      in if line \<noteq> [] \<and> \<not> HasPrefix line ''#'' \<and> Contains line (CHR ''='') \<and> TrimSpace left \<noteq> []
         then Some (TrimSpace left, right)
         else None)"

definition fileEntries :: "string list \<Rightarrow> (string \<times> string) list" where
  "fileEntries ls = List.map_filter lineEntry ls"

section \<open>What the program relies on from the age library\<close>

text \<open>
  For recipients \<open>R\<close> and identities \<open>I\<close> that match (an identity of \<open>I\<close> belongs to a
  recipient of \<open>R\<close>): encryption to \<open>R\<close> returns a ciphertext; \<open>age.Decrypt\<close> with \<open>I\<close>
  reads the plaintext back from it; a binary envelope is not accepted by an armor
  reader; the armored text of the envelope is, and dearmors to the envelope.
\<close>

definition age_contract :: "('id, 'rc) lib \<Rightarrow> ('rc list \<Rightarrow> 'id list \<Rightarrow> bool) \<Rightarrow> bool" where
  "age_contract L matching =
     (\<forall>R I n P. matching R I \<longrightarrow>
        (\<exists>c. age_Encrypt L R n P = Some c \<and> age_Decrypt L I c = Some (Some P) \<and>
             \<not> armor_Read1 L c \<and> armor_Read1 L (armor_Writer L c) \<and>
             armor_Reader L (armor_Writer L c) = Some c))"

section \<open>A small instance of the external collaborators\<close>

text \<open>
  An instance of the library on which the model runs on concrete inputs: recipients and
  identities are numbers; an envelope is the text \<open>age1\<close>, one byte for the first
  recipient, and the plaintext; only the identity with the recipient's number opens
  it; armor puts a \<open>-\<close> in front; the directory of a path is what stands before its
  last \<open>/\<close>.
\<close>

definition demoEncrypt :: "nat list \<Rightarrow> nat \<Rightarrow> string \<Rightarrow> string option" where
  "demoEncrypt rs n p = (case rs of [] \<Rightarrow> None | r # _ \<Rightarrow> Some (''age1'' @ [char_of r] @ p))"

definition demoDecrypt :: "nat list \<Rightarrow> string \<Rightarrow> string option option" where
  "demoDecrypt ids c =
     (if take 4 c = ''age1'' \<and> 5 \<le> length c \<and> (of_char (c ! 4) :: nat) \<in> set ids
      then Some (Some (drop 5 c)) else None)"

definition demoDir :: "string \<Rightarrow> string" where
  "demoDir p =
     (if CHR ''/'' \<in> set p then rev (tl (dropWhile (\<lambda>c. c \<noteq> CHR ''/'') (rev p))) else ''.'')"

definition demoBase :: "string \<Rightarrow> string" where
  "demoBase p = rev (takeWhile (\<lambda>c. c \<noteq> CHR ''/'') (rev p))"

definition demoLib :: "(nat, nat) lib" where
  "demoLib =
     \<lparr>age_Encrypt = demoEncrypt,
      age_Decrypt = demoDecrypt,
      armor_Writer = (\<lambda>c. CHR ''-'' # c),
      armor_Reader = (\<lambda>s. case s of [] \<Rightarrow> None | x # c \<Rightarrow> if x = CHR ''-'' then Some c else None),
      armor_Read1 = (\<lambda>s. case s of [] \<Rightarrow> False | x # c \<Rightarrow> x = CHR ''-'' \<and> c \<noteq> []),
      filepath_Dir = demoDir,
      filepath_Base = demoBase\<rparr>"

definition demoMatching :: "nat list \<Rightarrow> nat list \<Rightarrow> bool" where
  "demoMatching R I = (case R of [] \<Rightarrow> False | r # _ \<Rightarrow> r < 256 \<and> r \<in> set I)"

definition demoIo :: "fault \<Rightarrow> io" where
  "demoIo f = \<lparr>fault = f, tmpRandom = ''42'', nonce = 0, preNonce = 1, now = 7\<rparr>"

definition demoDisk :: disk where
  "demoDisk = \<lparr>files = [''secrets/app.env.age'' \<mapsto> ''age1'' @ [char_of (1::nat)] @ ''A=1''], ops = []\<rparr>"



text \<open>A line editor as the text area of the small instance: a one-byte key is appended,
  \<open>backspace\<close> deletes the last byte; the parsers accept everything; the diff is empty
  for equal texts.\<close>

definition demoUi :: "string ui" where
  "demoUi =
     \<lparr>ta_New = (\<lambda>plaintext viewOnly. plaintext),
      ta_Value = (\<lambda>s. s),
      ta_Update = (\<lambda>t s. case t of
                     KeyMsg k \<Rightarrow>
                       if k = ''backspace'' then (butlast s, CmdNil)
                       else if length k = 1 then (s @ k, CmdNil)
                       else (s, CmdNil)
                   | _ \<Rightarrow> (s, CmdNil)),
      json_parses = (\<lambda>s. True),
      yaml_parses = (\<lambda>s. True),
      toml_parses = (\<lambda>s. True),
      difflib_UnifiedDiff = (\<lambda>a b from to. if a = b then [] else ''-'' @ a @ ''+'' @ b)\<rparr>"

definition demoCfg :: Config where
  "demoCfg =
     \<lparr>FilePath = ''secrets/app.env.age'', RecipientsFile = ''.age-recipients'',
      IdentitiesPath = ''key.txt'', Armor = False, ViewOnly = False\<rparr>"

section \<open>Verified properties\<close>

subsection \<open>Environment merge\<close>

lemmas eval_strings =
  TrimSpace_def TrimRight_def asciiSpace_def HasPrefix_def Contains_def SplitN2_def
  Let_def dropCR_def maxTokenSize_def

lemma mergeLine_lineEntry:
  "mergeLine text m = (case lineEntry text of None \<Rightarrow> m | Some (k, v) \<Rightarrow> m(k \<mapsto> v))"
  by (simp add: mergeLine_def lineEntry_def Let_def SplitN2_def Contains_def)

lemma scanLoop_last_wins:
  "scanLoop ls m k = (case map_of (rev (fileEntries ls)) k of Some v \<Rightarrow> Some v | None \<Rightarrow> m k)"
proof (induction ls arbitrary: m)
  case Nil
  show ?case by (simp add: fileEntries_def List.map_filter_simps)
next
  case (Cons l ls)
  show ?case
  proof (cases "lineEntry l")
    case None
    then show ?thesis
      by (simp add: Cons.IH mergeLine_lineEntry) (simp add: fileEntries_def List.map_filter_simps)
  next
    case (Some kv)
    obtain k' v' where kv: "kv = (k', v')" by (cases kv)
    have fe: "fileEntries (l # ls) = (k', v') # fileEntries ls"
      using Some kv by (simp add: fileEntries_def List.map_filter_simps)
    show ?thesis
      using Some kv
      by (simp add: Cons.IH mergeLine_lineEntry fe map_add_def split: option.splits)
  qed
qed

lemma fileEntries_append: "fileEntries (xs @ ys) = fileEntries xs @ fileEntries ys"
  by (induction xs) (simp_all add: fileEntries_def List.map_filter_simps split: option.splits)

lemma map_of_last_entry:
  assumes "lineEntry l = Some (k, v)"
    and "\<forall>l'\<in>set post. \<forall>v'. lineEntry l' \<noteq> Some (k, v')"
  shows "map_of (rev (fileEntries (pre @ l # post))) k = Some v"
proof -
  have post: "map_of (rev (fileEntries post)) k = None"
  proof (rule ccontr)
    assume "map_of (rev (fileEntries post)) k \<noteq> None"
    then obtain v' where "map_of (rev (fileEntries post)) k = Some v'" by auto
    then have "(k, v') \<in> set (fileEntries post)"
      using map_of_SomeD by fastforce
    then obtain l' where "l' \<in> set post" "lineEntry l' = Some (k, v')"
      by (auto simp: fileEntries_def List.map_filter_def)
    with assms(2) show False by blast
  qed
  have "fileEntries (pre @ l # post) = fileEntries pre @ (k, v) # fileEntries post"
    using assms(1) fileEntries_append [of pre "l # post"]
    by (simp add: fileEntries_def List.map_filter_simps)
  then show ?thesis
    using post by (simp add: map_add_def)
qed

text \<open>
  C7. Merging the decrypted text \<open>A=1\<close>, \<open>#comment\<close>, \<open>B=two words\<close>, \<open>=badline\<close>,
  \<open>NOEQUALS\<close> (each line ended by a line feed) over the inherited environment
  \<open>A=0\<close>, \<open>C=x\<close> returns no error and exactly the map \<open>A \<mapsto> 1\<close>, \<open>B \<mapsto> two words\<close>,
  \<open>C \<mapsto> x\<close>: the two malformed lines are skipped.
\<close>

theorem mergeEnv_reference_vector:
  "mergeEnv [''A=0'', ''C=x'']
      ''A=1\<newline>#comment\<newline>B=two words\<newline>=badline\<newline>NOEQUALS\<newline>''
   = Inr [''A'' \<mapsto> ''1'', ''B'' \<mapsto> ''two words'', ''C'' \<mapsto> ''x'']"
proof -
  have "[''A'' \<mapsto> ''0'', ''C'' \<mapsto> ''x'', ''A'' \<mapsto> ''1'', ''B'' \<mapsto> ''two words'']
        = [''A'' \<mapsto> ''1'', ''B'' \<mapsto> ''two words'', ''C'' \<mapsto> ''x'']"
    by (rule ext) simp
  then show ?thesis
    by (simp add: mergeEnv_def mergeLine_def eval_strings)
qed

text \<open>
  C8 (as amended). \<open>runEnvExec\<close> trims the whole line before it splits it. For every
  line whose trimmed form is \<open>l = v\<close> with no \<open>=\<close> in \<open>l\<close>, a left side \<open>l\<close> that is
  not empty after trimming and does not start with \<open>#\<close>: the key is the trimmed left
  side and the value is \<open>v\<close>, everything after the first \<open>=\<close> of the trimmed line,
  without further trimming. Leading and embedded white space of the value survives;
  white space at the end of the line is gone with the trim of the line.
\<close>

theorem mergeLine_value_verbatim:
  assumes "TrimSpace text = l @ CHR ''='' # v" and "CHR ''='' \<notin> set l"
    and "TrimSpace l \<noteq> []" and "\<not> HasPrefix l ''#''"
  shows "mergeLine text m = m(TrimSpace l \<mapsto> v)"
proof -
  have l: "l \<noteq> []" using assms(3) by (auto simp: TrimSpace_def TrimRight_def)
  have ne: "\<forall>x\<in>set l. x \<noteq> CHR ''=''"
    using assms(2) by auto
  have tw: "takeWhile (\<lambda>c. c \<noteq> CHR ''='') (l @ CHR ''='' # v) = l"
    using ne by (simp add: takeWhile_append2)
  have dw: "dropWhile (\<lambda>c. c \<noteq> CHR ''='') (l @ CHR ''='' # v) = CHR ''='' # v"
    using ne by (simp add: dropWhile_append2)
  have hp: "\<not> HasPrefix (l @ CHR ''='' # v) ''#''"
    using assms(4) l by (cases l) (auto simp: HasPrefix_def)
  show ?thesis
    using assms(3) hp by (simp add: mergeLine_def Let_def assms(1) SplitN2_def Contains_def tw dw)
qed

text \<open>The line \<open>KEY =  two  words\<close> with two spaces before and after it: the key is
  \<open>KEY\<close>, the value keeps its two leading spaces and the two between the words.\<close>

theorem mergeLine_value_verbatim_witness:
  "mergeLine ''  KEY =  two  words  '' Map.empty = [''KEY'' \<mapsto> ''  two  words'']"
proof -
  have t: "TrimSpace ''  KEY =  two  words  '' = ''KEY '' @ CHR ''='' # ''  two  words''"
    by (simp add: eval_strings)
  have k: "TrimSpace ''KEY '' = ''KEY''"
    by (simp add: eval_strings)
  have "mergeLine ''  KEY =  two  words  '' Map.empty = Map.empty(TrimSpace ''KEY '' \<mapsto> ''  two  words'')"
    by (rule mergeLine_value_verbatim [OF t]) (simp_all add: k HasPrefix_def)
  then show ?thesis by (simp add: k)
qed

text \<open>C8 as stated fails: the two spaces that end the value of the line \<open>KEY=value\<close>
  do not reach the merged environment.\<close>

theorem trailing_whitespace_counterexample:
  "\<exists>env. mergeEnv [] ''KEY=value  \<newline>'' = Inr env \<and> env ''KEY'' = Some ''value''
     \<and> env ''KEY'' \<noteq> Some ''value  ''"
  by (simp add: mergeEnv_def mergeLine_def eval_strings)

text \<open>An input shorter than the scanner's buffer is read to its end.\<close>

lemma scanLines_short_input:
  "length plain < maxTokenSize \<Longrightarrow> \<not> snd (scanLines plain)"
proof (induction plain rule: scanLines.induct)
  case 1
  then show ?case by simp
next
  case (2 c cs)
  let ?l = "takeWhile (\<lambda>x. x \<noteq> CHR 0x0A) (c # cs)"
  have len: "length ?l \<le> length (c # cs)"
    by (rule length_takeWhile_le)
  with "2.prems" have short: "\<not> maxTokenSize \<le> length ?l" by simp
  have "length (drop (Suc (length ?l)) (c # cs)) < maxTokenSize"
    using "2.prems" by simp
  with "2.IH" short have rest: "\<not> snd (scanLines (drop (Suc (length ?l)) (c # cs)))" by blast
  have "scanLines (c # cs) =
          (case scanLines (drop (Suc (length ?l)) (c # cs)) of (ls, e) \<Rightarrow> (dropCR ?l # ls, e))"
    using short by (simp only: scanLines.simps if_False)
  then have "snd (scanLines (c # cs)) = snd (scanLines (drop (Suc (length ?l)) (c # cs)))"
    by (simp only: split_beta snd_conv)
  with rest show ?case by simp
qed

text \<open>
  C10. When the scanner reads the decrypted text to its end, the merge returns a map in
  which every key of a qualifying line has the value of the last qualifying line with
  that key, whatever the inherited environment holds for it, and every other key has
  its inherited value.
\<close>

theorem mergeEnv_last_occurrence_wins:
  assumes "\<not> snd (scanLines plain)"
  shows "\<exists>env. mergeEnv environ plain = Inr env \<and>
           (\<forall>k. env k = (case map_of (rev (fileEntries (fst (scanLines plain)))) k of
                           Some v \<Rightarrow> Some v
                         | None \<Rightarrow> environLoop environ Map.empty k)) \<and>
           (\<forall>pre l post k v.
              fst (scanLines plain) = pre @ l # post \<longrightarrow> lineEntry l = Some (k, v) \<longrightarrow>
              (\<forall>l'\<in>set post. \<forall>v'. lineEntry l' \<noteq> Some (k, v')) \<longrightarrow> env k = Some v)"
proof -
  obtain ls e where sl: "scanLines plain = (ls, e)" by (cases "scanLines plain")
  with assms have e: "e = False" by simp
  let ?env = "scanLoop ls (environLoop environ Map.empty)"
  have r: "mergeEnv environ plain = Inr ?env"
    by (simp add: mergeEnv_def sl e)
  have a: "\<forall>k. ?env k = (case map_of (rev (fileEntries ls)) k of
                           Some v \<Rightarrow> Some v
                         | None \<Rightarrow> environLoop environ Map.empty k)"
    by (simp add: scanLoop_last_wins)
  have b: "\<forall>pre l post k v.
              ls = pre @ l # post \<longrightarrow> lineEntry l = Some (k, v) \<longrightarrow>
              (\<forall>l'\<in>set post. \<forall>v'. lineEntry l' \<noteq> Some (k, v')) \<longrightarrow> ?env k = Some v"
    by (simp add: scanLoop_last_wins map_of_last_entry)
  show ?thesis
    using r a b by (simp add: sl)
qed

text \<open>The key \<open>A\<close> is inherited as \<open>0\<close> and set twice by the file: the second line
  wins. \<open>C\<close> is not in the file and keeps its inherited value.\<close>

theorem mergeEnv_last_occurrence_wins_witness:
  "\<not> snd (scanLines ''A=1\<newline>B=2\<newline>A=3\<newline>'') \<and>
   (\<exists>env. mergeEnv [''A=0'', ''C=x''] ''A=1\<newline>B=2\<newline>A=3\<newline>'' = Inr env \<and>
          env ''A'' = Some ''3'' \<and> env ''C'' = Some ''x'')"
proof -
  have sl: "scanLines ''A=1\<newline>B=2\<newline>A=3\<newline>'' = ([''A=1'', ''B=2'', ''A=3''], False)"
    by (simp add: maxTokenSize_def dropCR_def)
  have h: "\<not> snd (scanLines ''A=1\<newline>B=2\<newline>A=3\<newline>'')"
    unfolding sl by simp
  have fe: "fileEntries [''A=1'', ''B=2'', ''A=3''] = [(''A'', ''1''), (''B'', ''2''), (''A'', ''3'')]"
    by (simp add: fileEntries_def List.map_filter_simps lineEntry_def eval_strings)
  from mergeEnv_last_occurrence_wins [OF h, of "[''A=0'', ''C=x'']"]
  obtain env where env: "mergeEnv [''A=0'', ''C=x''] ''A=1\<newline>B=2\<newline>A=3\<newline>'' = Inr env"
    and val: "\<And>k. env k = (case map_of (rev (fileEntries (fst (scanLines ''A=1\<newline>B=2\<newline>A=3\<newline>'')))) k of
                           Some v \<Rightarrow> Some v
                         | None \<Rightarrow> environLoop [''A=0'', ''C=x''] Map.empty k)"
    by blast
  note val' = val [unfolded sl fst_conv fe]
  have "env ''A'' = Some ''3''" by (simp add: val')
  moreover have "env ''C'' = Some ''x''" by (simp add: val' SplitN2_def Let_def)
  ultimately show ?thesis using h env by blast
qed

subsection \<open>Atomic write\<close>















lemmas eval_demo =
  AtomicEncryptWrite_def CreateTemp_def writeTemp_def Remove_def Rename_def
  demoLib_def demoIo_def demoDisk_def demoDir_def demoEncrypt_def demoDecrypt_def
  joinPath_def tmpPrefix_def Let_def


subsection \<open>Round trip\<close>

text \<open>
  C5. With an age library that keeps its contract, for every plaintext, matching
  recipients and identities, every randomness of the encryption and both armor
  settings: \<open>EncryptToMemory\<close> returns a ciphertext, and \<open>DecryptToMemory\<close> of a file
  that holds it (the file can be opened) returns exactly the plaintext.
\<close>

theorem encrypt_decrypt_roundtrip:
  assumes "age_contract L matching" and "matching R I" and "fault i \<noteq> FailOpen"
  shows "\<exists>c. EncryptToMemory L n P R useArmor = Inr c \<and>
             (\<forall>d path. files d path = Some c \<longrightarrow> DecryptToMemory L i path I d = Inr P)"
proof -
  from assms(1,2) obtain c where
    enc: "age_Encrypt L R n P = Some c" and dec: "age_Decrypt L I c = Some (Some P)"
    and bin: "\<not> armor_Read1 L c" and arm: "armor_Read1 L (armor_Writer L c)"
    and rd: "armor_Reader L (armor_Writer L c) = Some c"
    unfolding age_contract_def by blast
  show ?thesis
  proof (cases useArmor)
    case True
    then have "EncryptToMemory L n P R useArmor = Inr (armor_Writer L c)"
      by (simp add: EncryptToMemory_def enc)
    moreover have "\<forall>d path. files d path = Some (armor_Writer L c) \<longrightarrow>
                     DecryptToMemory L i path I d = Inr P"
      using assms(3) by (simp add: DecryptToMemory_def arm rd dec)
    ultimately show ?thesis by blast
  next
    case False
    then have "EncryptToMemory L n P R useArmor = Inr c"
      by (simp add: EncryptToMemory_def enc)
    moreover have "\<forall>d path. files d path = Some c \<longrightarrow> DecryptToMemory L i path I d = Inr P"
      using assms(3) by (simp add: DecryptToMemory_def bin dec)
    ultimately show ?thesis by blast
  qed
qed

lemma demo_contract: "age_contract demoLib demoMatching"
  unfolding age_contract_def
proof (intro allI impI)
  fix R I :: "nat list" and n :: nat and P :: string
  assume m: "demoMatching R I"
  then obtain r rs where R: "R = r # rs" and r: "r < 256" "r \<in> set I"
    by (auto simp: demoMatching_def split: list.splits)
  show "\<exists>c. age_Encrypt demoLib R n P = Some c \<and> age_Decrypt demoLib I c = Some (Some P) \<and>
             \<not> armor_Read1 demoLib c \<and> armor_Read1 demoLib (armor_Writer demoLib c) \<and>
             armor_Reader demoLib (armor_Writer demoLib c) = Some c"
    using r by (simp add: demoLib_def demoEncrypt_def demoDecrypt_def R)
qed

text \<open>The round trip of \<open>A=1\<close> on the small instance, armored and binary.\<close>

theorem encrypt_decrypt_roundtrip_witness:
  "demoMatching [1] [1] \<and>
   (\<exists>c. EncryptToMemory demoLib 0 ''A=1'' [1] True = Inr c \<and>
        DecryptToMemory demoLib (demoIo NoFault) ''f.age'' [1] \<lparr>files = [''f.age'' \<mapsto> c], ops = []\<rparr>
          = Inr ''A=1'') \<and>
   (\<exists>c. EncryptToMemory demoLib 0 ''A=1'' [1] False = Inr c \<and>
        DecryptToMemory demoLib (demoIo NoFault) ''f.age'' [1] \<lparr>files = [''f.age'' \<mapsto> c], ops = []\<rparr>
          = Inr ''A=1'')"
proof -
  have m: "demoMatching [1] [1]" by (simp add: demoMatching_def)
  have f: "fault (demoIo NoFault) \<noteq> FailOpen" by (simp add: demoIo_def)
  have "\<exists>c. EncryptToMemory demoLib 0 ''A=1'' [1] useArmor = Inr c \<and>
        DecryptToMemory demoLib (demoIo NoFault) ''f.age'' [1] \<lparr>files = [''f.age'' \<mapsto> c], ops = []\<rparr>
          = Inr ''A=1''" for useArmor
  proof -
    from encrypt_decrypt_roundtrip [OF demo_contract m f, of 0 "''A=1''" useArmor]
    obtain c where c: "EncryptToMemory demoLib 0 ''A=1'' [1] useArmor = Inr c"
      and d: "\<And>d path. files d path = Some c \<Longrightarrow>
                 DecryptToMemory demoLib (demoIo NoFault) path [1] d = Inr ''A=1''"
      by blast
    have "DecryptToMemory demoLib (demoIo NoFault) ''f.age'' [1] \<lparr>files = [''f.age'' \<mapsto> c], ops = []\<rparr>
          = Inr ''A=1''"
      by (rule d) simp
    with c show ?thesis by blast
  qed
  with m show ?thesis by blast
qed

subsection \<open>Rotation\<close>




lemma rotateOne_decrypt_failure:
  assumes "rotateOne L ios ids rc f (ok, fail, out, d) = (ok', fail', out', d')"
    and "DecryptToMemory L (ios f) f ids d = Inl e"
  shows "out' = out @ [DecryptFailed f e]"
  using assms by (auto simp: rotateOne_def)






subsection \<open>Exit status of a usage error\<close>

text \<open>
  C9. \<open>agepad run secrets/app.env.age\<close>, without the \<open>--\<close> markers, is malformed.
  \<open>main\<close> of cmd/agepad/main.go ends with status 1, the status of every other error;
  \<open>main\<close> of the single-file program ends with status 2.
\<close>

theorem run_usage_error_exit_status:
  "main_run demoLib (demoIo NoFault) (Inr [1]) (\<lambda>c. Some c) False [] [''secrets/app.env.age''] demoDisk
     = Exit 1 \<and>
   single_file_main_run demoLib (demoIo NoFault) (Inr [1]) (\<lambda>c. Some c) False []
       [''secrets/app.env.age''] demoDisk
     = Exit 2"
  by (simp add: main_run_def single_file_main_run_def runEnvExec_def parseRunArgs_def)

subsection \<open>The editor\<close>

lemmas update_defs =
  Update_def updateQuit_def updateDiff_def updateSave_def updateTextarea_def

text \<open>The save gate, as the branch \<open>ctrl+s\<close> has it: a first request on a changed
  buffer asks for the confirmation and writes nothing; a request while the confirmation
  is pending goes on to the atomic write; a message that changes the buffer withdraws
  the confirmation; and a quit request on unsaved changes sets the same flag.\<close>

lemma save_request_asks_confirmation:
  assumes "\<not> ViewOnly (cfg m)"
    and "ValidateByExt U (FilePath (cfg m)) (ta_Value U (ta m)) = None"
    and "EncryptToMemory L (preNonce i) (ta_Value U (ta m)) (recips m) (Armor (cfg m)) = Inr c"
    and "age_Decrypt L (identities m) c = Some r"
    and "ta_Value U (ta m) \<noteq> orig m" and "\<not> pendingConfirm m"
  shows "\<exists>m'. Update L U i (KeyMsg ''ctrl+s'') (m, d) = ((m', d), CmdNil) \<and>
              pendingConfirm m' \<and> ta m' = ta m \<and> orig m' = orig m"
  using assms by (simp add: Update_def updateSave_def Let_def)

lemma pending_save_request_writes:
  assumes "\<not> ViewOnly (cfg m)"
    and "ValidateByExt U (FilePath (cfg m)) (ta_Value U (ta m)) = None"
    and "EncryptToMemory L (preNonce i) (ta_Value U (ta m)) (recips m) (Armor (cfg m)) = Inr c"
    and "age_Decrypt L (identities m) c = Some r"
    and "pendingConfirm m"
    and "AtomicEncryptWrite L i (FilePath (cfg m)) (ta_Value U (ta m)) (recips m) (Armor (cfg m)) d
           = (res, d')"
  shows "\<exists>m'. Update L U i (KeyMsg ''ctrl+s'') (m, d) = ((m', d'), CmdNil) \<and>
              \<not> pendingConfirm m' \<and> ta m' = ta m \<and>
              (res = None \<longrightarrow> orig m' = ta_Value U (ta m) \<and> \<not> changed m')"
  using assms by (cases res) (simp_all add: Update_def updateSave_def Let_def)

lemma edit_resets_confirmation:
  assumes "k \<noteq> ''ctrl+q''" and "k \<noteq> ''esc''" and "k \<noteq> ''ctrl+d''" and "k \<noteq> ''ctrl+s''"
    and "ta_Update U (KeyMsg k) (ta m) = (ta', c)" and "ta_Value U ta' \<noteq> ta_Value U (ta m)"
  shows "Update L U i (KeyMsg k) (m, d)
           = ((m\<lparr>ta := ta', changed := True, pendingConfirm := False\<rparr>, d), c)"
  using assms by (auto simp: Update_def updateTextarea_def Let_def)

lemma quit_request_sets_confirmation:
  assumes "changed m" and "\<not> ViewOnly (cfg m)" and "\<not> pendingConfirm m"
  shows "Update L U i (KeyMsg ''ctrl+q'') (m, d)
           = ((m\<lparr>status := StUnsavedChanges, pendingConfirm := True\<rparr>, d), CmdNil)"
  using assms by (simp add: Update_def updateQuit_def)

lemma demo_validate: "ValidateByExt demoUi ''secrets/app.env.age'' ''A=12'' = None"
  by (simp add: ValidateByExt_def Ext_def ToLower_def char_of_def bit_0 looksLikeDotEnv_def
        validateDotEnv_def eval_strings ContainsAny_def)

lemmas eval_editor =
  update_defs NewModel_def demoUi_def demoCfg_def demo_validate [unfolded demoUi_def]
  EncryptToMemory_def eval_demo

text \<open>
  C1. The buffer \<open>A=1\<close> is edited to \<open>A=12\<close>. A quit request sets the pending
  confirmation that the save gate reads, so the one save request that follows writes
  the file. Without the quit request the one save request writes nothing: the file
  holds the old ciphertext and the trace of the disk is empty.
\<close>

theorem save_after_quit_request_commits:
  "files (snd (run demoLib demoUi
        [(demoIo NoFault, KeyMsg ''2''), (demoIo NoFault, KeyMsg ''ctrl+q''),
         (demoIo NoFault, KeyMsg ''ctrl+s'')]
        (NewModel demoUi demoCfg ''A=1'' [1] [1], demoDisk))) ''secrets/app.env.age''
     = Some (''age1'' @ [char_of (1::nat)] @ ''A=12'') \<and>
   files (snd (run demoLib demoUi
        [(demoIo NoFault, KeyMsg ''2''), (demoIo NoFault, KeyMsg ''ctrl+s'')]
        (NewModel demoUi demoCfg ''A=1'' [1] [1], demoDisk))) ''secrets/app.env.age''
     = Some (''age1'' @ [char_of (1::nat)] @ ''A=1'') \<and>
   ops (snd (run demoLib demoUi
        [(demoIo NoFault, KeyMsg ''2''), (demoIo NoFault, KeyMsg ''ctrl+s'')]
        (NewModel demoUi demoCfg ''A=1'' [1] [1], demoDisk))) = []"
  by (simp add: eval_editor)






lemma updateSave_preflight_failure:
  assumes "EncryptToMemory L (preNonce i) (ta_Value U (ta m)) (recips m) (Armor (cfg m)) = Inl e \<or>
           (\<exists>c. EncryptToMemory L (preNonce i) (ta_Value U (ta m)) (recips m) (Armor (cfg m)) = Inr c \<and>
                age_Decrypt L (identities m) c = None)"
  shows "\<exists>m'. updateSave L U i (m, d) = ((m', d), CmdNil) \<and> ta m' = ta m \<and> orig m' = orig m \<and>
              changed m' = changed m \<and>
              (\<not> ViewOnly (cfg m) \<longrightarrow> \<not> pendingConfirm m' \<and> err m' \<noteq> None)"
  using assms
  by (auto simp: updateSave_def Let_def split: option.splits sum.splits)

text \<open>
  C3. For every buffer, recipients and identities: when the preflight of a save request
  fails, at the encryption to memory or at the decryption of that ciphertext with the
  current identities, the disk after the request is the disk before it (the same files
  and not one operation in its trace, so no temp file was created), and the text area,
  the original snapshot and the changed flag are untouched; the save has been aborted
  with an error and without a pending confirmation.
\<close>

theorem preflight_failure_no_disk_write:
  assumes "EncryptToMemory L (preNonce i) (ta_Value U (ta m)) (recips m) (Armor (cfg m)) = Inl e \<or>
           (\<exists>c. EncryptToMemory L (preNonce i) (ta_Value U (ta m)) (recips m) (Armor (cfg m)) = Inr c \<and>
                age_Decrypt L (identities m) c = None)"
  shows "\<exists>m'. Update L U i (KeyMsg ''ctrl+s'') (m, d) = ((m', d), CmdNil) \<and>
              ta m' = ta m \<and> orig m' = orig m \<and> changed m' = changed m \<and>
              (\<not> ViewOnly (cfg m) \<longrightarrow> \<not> pendingConfirm m' \<and> err m' \<noteq> None)"
  using updateSave_preflight_failure [OF assms] by (simp add: Update_def)

text \<open>The file is encrypted to recipient 1 and the only identity is 2: the preflight
  decryption fails and the save request leaves disk, buffer and snapshot alone.\<close>

theorem preflight_failure_no_disk_write_witness:
  "snd (fst (Update demoLib demoUi (demoIo NoFault) (KeyMsg ''ctrl+s'')
               (NewModel demoUi demoCfg ''A=1'' [2] [1], demoDisk))) = demoDisk \<and>
   ta (fst (fst (Update demoLib demoUi (demoIo NoFault) (KeyMsg ''ctrl+s'')
               (NewModel demoUi demoCfg ''A=1'' [2] [1], demoDisk)))) = ''A=1'' \<and>
   orig (fst (fst (Update demoLib demoUi (demoIo NoFault) (KeyMsg ''ctrl+s'')
               (NewModel demoUi demoCfg ''A=1'' [2] [1], demoDisk)))) = ''A=1''"
proof -
  let ?m = "NewModel demoUi demoCfg ''A=1'' [2] [1] :: (nat, nat, string) Model"
  have enc: "EncryptToMemory demoLib (preNonce (demoIo NoFault)) (ta_Value demoUi (ta ?m)) (recips ?m)
               (Armor (cfg ?m)) = Inr (''age1'' @ [char_of (1::nat)] @ ''A=1'')"
    by (simp add: EncryptToMemory_def NewModel_def demoUi_def demoCfg_def demoLib_def demoEncrypt_def)
  have dec: "age_Decrypt demoLib (identities ?m) (''age1'' @ [char_of (1::nat)] @ ''A=1'') = None"
    by (simp add: NewModel_def demoLib_def demoDecrypt_def)
  have "EncryptToMemory demoLib (preNonce (demoIo NoFault)) (ta_Value demoUi (ta ?m)) (recips ?m)
               (Armor (cfg ?m)) = Inl ErrEncrypt \<or>
        (\<exists>c. EncryptToMemory demoLib (preNonce (demoIo NoFault)) (ta_Value demoUi (ta ?m)) (recips ?m)
               (Armor (cfg ?m)) = Inr c \<and> age_Decrypt demoLib (identities ?m) c = None)"
    using enc dec by blast
  from preflight_failure_no_disk_write [OF this, where d = demoDisk]
  obtain m' where up: "Update demoLib demoUi (demoIo NoFault) (KeyMsg ''ctrl+s'') (?m, demoDisk)
                        = ((m', demoDisk), CmdNil)"
    and "ta m' = ta ?m" and "orig m' = orig ?m"
    by blast
  then show ?thesis
    unfolding up fst_conv snd_conv by (simp add: NewModel_def demoUi_def)
qed

end
